theory Spec2Isabelle
  imports Complex_Main "HOL-Library.Sublist"
begin

section \<open>Python values and their text\<close>

text \<open>
  Text is a \<open>string\<close>, one \<open>char\<close> per code point, for code points below 256; \<open>length\<close> is
  then Python's \<open>len\<close>. The two symbols of the tool messages that lie outside that range are
  the constants \<open>cross_mark\<close> and \<open>check_mark\<close> below.
\<close>

text \<open>\<open>str(i)\<close> for an integer: decimal digits, with a minus sign when negative.\<close>

fun digits :: "nat \<Rightarrow> string" where
  "digits n = (if n < 10 then [''0123456789'' ! n]
               else digits (n div 10) @ [''0123456789'' ! (n mod 10)])"

declare digits.simps [simp del]

definition str_int :: "int \<Rightarrow> string" where
  "str_int i = (if i < 0 then CHR ''-'' # digits (nat (- i)) else digits (nat i))"

text \<open>\<open>sep.join(xs)\<close>.\<close>

fun join :: "string \<Rightarrow> string list \<Rightarrow> string" where
  "join sep [] = []"
| "join sep [x] = x"
| "join sep (x # y # ys) = x @ sep @ join sep (y # ys)"

text \<open>
  The values \<open>response.json()\<close> returns: \<open>None\<close>, booleans, integers, strings, lists and
  dictionaries with string keys (in insertion order, keys distinct). Floating-point numbers
  are left out: nothing below computes with them.
\<close>

datatype pyval =
    PNone
  | PBool bool
  | PInt int
  | PStr string
  | PList "pyval list"
  | PDict "(string \<times> pyval) list"

text \<open>
  \<open>repr\<close> of a string, as CPython writes it: double quotes when the string has a single
  quote and no double quote, single quotes otherwise; the quote and the backslash escaped;
  tab, newline and carriage return by letter; any other non-printable character as
  \<open>\xhh\<close>.
\<close>

definition printable :: "char \<Rightarrow> bool" where
  "printable c = (let n = (of_char c :: nat) in (32 \<le> n \<and> n < 127) \<or> (161 \<le> n \<and> n \<noteq> 173))"

definition hex2 :: "nat \<Rightarrow> string" where
  "hex2 n = [''0123456789abcdef'' ! (n div 16), ''0123456789abcdef'' ! (n mod 16)]"

definition repr_char :: "char \<Rightarrow> char \<Rightarrow> string" where
  "repr_char quote c =
     (if c = quote \<or> c = CHR 0x5C then [CHR 0x5C, c]
      else if c = CHR 0x09 then [CHR 0x5C, CHR ''t'']
      else if c = CHR 0x0A then [CHR 0x5C, CHR ''n'']
      else if c = CHR 0x0D then [CHR 0x5C, CHR ''r'']
      else if \<not> printable c then [CHR 0x5C, CHR ''x''] @ hex2 (of_char c)
      else [c])"

definition repr_str :: "string \<Rightarrow> string" where
  "repr_str s =
     (let quote = (if CHR 0x27 \<in> set s \<and> CHR 0x22 \<notin> set s then CHR 0x22 else CHR 0x27)
      in [quote] @ concat (map (repr_char quote) s) @ [quote])"

fun py_repr :: "pyval \<Rightarrow> string"
  and repr_elems :: "pyval list \<Rightarrow> string list"
  and repr_items :: "(string \<times> pyval) list \<Rightarrow> string list" where
  "py_repr PNone = ''None''"
| "py_repr (PBool b) = (if b then ''True'' else ''False'')"
| "py_repr (PInt i) = str_int i"
| "py_repr (PStr s) = repr_str s"
| "py_repr (PList xs) = ''['' @ join '', '' (repr_elems xs) @ '']''"
| "py_repr (PDict kvs) = ''{'' @ join '', '' (repr_items kvs) @ ''}''"
| "repr_elems [] = []"
| "repr_elems (x # xs) = py_repr x # repr_elems xs"
| "repr_items [] = []"
| "repr_items ((k, v) # kvs) = (repr_str k @ '': '' @ py_repr v) # repr_items kvs"

text \<open>\<open>str(v)\<close>, also what an f-string writes for \<open>{v}\<close>: a string is itself, anything else its \<open>repr\<close>.\<close>

definition py_str :: "pyval \<Rightarrow> string" where
  "py_str v = (case v of PStr s \<Rightarrow> s | _ \<Rightarrow> py_repr v)"

text \<open>U+274C and U+2713, each written as its three UTF-8 bytes.\<close>

definition cross_mark :: string where
  "cross_mark = [CHR 0xE2, CHR 0x9D, CHR 0x8C]"

definition check_mark :: string where
  "check_mark = [CHR 0xE2, CHR 0x9C, CHR 0x93]"

section \<open>Joining URLs: \<open>urllib.parse.urljoin\<close>\<close>

text \<open>
  The client builds its URL with \<open>urljoin\<close> of Python's standard library. The functions of
  this section transcribe \<open>urllib.parse\<close> of CPython 3.11 (\<open>urlsplit\<close>, \<open>_splitnetloc\<close>,
  \<open>_splitparams\<close>, \<open>urlparse\<close>, \<open>urlunparse\<close> with \<open>urlunsplit\<close>, \<open>urljoin\<close>) for URLs of
  printable ASCII characters without blanks and without brackets in the host, which is where
  the library does nothing but split and join: leading blanks are not stripped, and the
  checks of bracketed hosts are not made.
\<close>

text \<open>\<open>s.rstrip(c)\<close> for a single character \<open>c\<close>.\<close>

definition rstrip :: "char \<Rightarrow> string \<Rightarrow> string" where
  "rstrip c s = rev (dropWhile (\<lambda>x. x = c) (rev s))"

text \<open>\<open>s.find(c)\<close>, with \<open>None\<close> for Python's \<open>-1\<close>.\<close>

fun find_from :: "char \<Rightarrow> string \<Rightarrow> nat \<Rightarrow> nat option" where
  "find_from c [] i = None"
| "find_from c (x # xs) i = (if x = c then Some i else find_from c xs (Suc i))"

definition find_char :: "char \<Rightarrow> string \<Rightarrow> nat option" where
  "find_char c s = find_from c s 0"

text \<open>\<open>s.split(c)\<close> and, for a string that contains \<open>c\<close>, \<open>s.split(c, 1)\<close>.\<close>

fun split_on :: "char \<Rightarrow> string \<Rightarrow> string list" where
  "split_on c [] = [[]]"
| "split_on c (x # xs) =
     (if x = c then [] # split_on c xs
      else (case split_on c xs of [] \<Rightarrow> [[x]] | seg # segs \<Rightarrow> (x # seg) # segs))"

definition split_once :: "char \<Rightarrow> string \<Rightarrow> string \<times> string" where
  "split_once c s = (takeWhile (\<lambda>x. x \<noteq> c) s, drop 1 (dropWhile (\<lambda>x. x \<noteq> c) s))"

definition scheme_chars :: string where
  "scheme_chars = ''abcdefghijklmnopqrstuvwxyzABCDEFGHIJKLMNOPQRSTUVWXYZ0123456789+-.''"

definition uses_relative :: "string list" where
  "uses_relative = ['''', ''ftp'', ''http'', ''gopher'', ''nntp'', ''imap'', ''wais'', ''file'',
     ''https'', ''shttp'', ''mms'', ''prospero'', ''rtsp'', ''rtsps'', ''rtspu'', ''sftp'', ''svn'',
     ''svn+ssh'', ''ws'', ''wss'']"

definition uses_netloc :: "string list" where
  "uses_netloc = ['''', ''ftp'', ''http'', ''gopher'', ''nntp'', ''telnet'', ''imap'', ''wais'',
     ''file'', ''mms'', ''https'', ''shttp'', ''snews'', ''prospero'', ''rtsp'', ''rtsps'', ''rtspu'',
     ''rsync'', ''svn'', ''svn+ssh'', ''sftp'', ''nfs'', ''git'', ''git+ssh'', ''ws'', ''wss'']"

definition uses_params :: "string list" where
  "uses_params = ['''', ''ftp'', ''hdl'', ''prospero'', ''http'', ''imap'', ''https'', ''shttp'',
     ''rtsp'', ''rtsps'', ''rtspu'', ''sip'', ''sips'', ''mms'', ''sftp'', ''tel'']"

definition is_alpha :: "char \<Rightarrow> bool" where
  "is_alpha c = (c \<in> set ''abcdefghijklmnopqrstuvwxyzABCDEFGHIJKLMNOPQRSTUVWXYZ'')"

definition lower_char :: "char \<Rightarrow> char" where
  "lower_char c =
     (case map_of (zip ''ABCDEFGHIJKLMNOPQRSTUVWXYZ'' ''abcdefghijklmnopqrstuvwxyz'') c of
        None \<Rightarrow> c | Some l \<Rightarrow> l)"

text \<open>\<open>_splitnetloc(url, 2)\<close>: the host runs up to the first of \<open>/\<close>, \<open>?\<close>, \<open>#\<close>.\<close>

definition splitnetloc :: "string \<Rightarrow> string \<times> string" where
  "splitnetloc url =
     (let rest = drop 2 url;
          netloc = takeWhile (\<lambda>x. x \<notin> set ''/?#'') rest
      in (netloc, drop (length netloc) rest))"

text \<open>The six components of \<open>urlparse\<close>; the fields carry the prefix \<open>url_\<close>.\<close>

record url_parts =
  url_scheme :: string
  url_netloc :: string
  url_path :: string
  url_params :: string
  url_query :: string
  url_fragment :: string

text \<open>
  \<open>urlsplit(url, scheme)\<close>. The scheme is what stands before the first colon when that is a
  letter followed by scheme characters (the test \<open>0 < i\<close> comes first, so \<open>hd url\<close> is read
  on a non-empty string only).
\<close>

definition urlsplit :: "string \<Rightarrow> string \<Rightarrow> url_parts" where
  "urlsplit url default_scheme =
     (let (scheme1, url1) =
            (case find_char CHR '':'' url of
               None \<Rightarrow> (default_scheme, url)
             | Some i \<Rightarrow>
                 if 0 < i \<and> is_alpha (hd url) \<and>
                    list_all (\<lambda>c. c \<in> set scheme_chars) (take i url)
                 then (map lower_char (take i url), drop (Suc i) url)
                 else (default_scheme, url));
          (netloc1, url2) = (if take 2 url1 = ''//'' then splitnetloc url1 else ([], url1));
          (url3, fragment1) =
            (if CHR ''#'' \<in> set url2 then split_once CHR ''#'' url2 else (url2, []));
          (url4, query1) =
            (if CHR ''?'' \<in> set url3 then split_once CHR ''?'' url3 else (url3, []))
      in \<lparr>url_scheme = scheme1, url_netloc = netloc1, url_path = url4, url_params = [],
          url_query = query1, url_fragment = fragment1\<rparr>)"

text \<open>
  \<open>_splitparams(url)\<close>: the parameters start at the first semicolon of the last path
  segment. (With neither slash nor semicolon Python's index is \<open>-1\<close>, whence \<open>butlast\<close>;
  \<open>urlparse\<close> never calls it so.)
\<close>

definition splitparams :: "string \<Rightarrow> string \<times> string" where
  "splitparams url =
     (if CHR ''/'' \<in> set url
      then (let segs = split_on CHR ''/'' url;
                front = join ''/'' (butlast segs) @ ''/'';
                lastseg = last segs
            in if CHR '';'' \<in> set lastseg
               then (front @ takeWhile (\<lambda>x. x \<noteq> CHR '';'') lastseg,
                     drop 1 (dropWhile (\<lambda>x. x \<noteq> CHR '';'') lastseg))
               else (url, []))
      else (case find_char CHR '';'' url of
              None \<Rightarrow> (butlast url, url)
            | Some i \<Rightarrow> (take i url, drop (Suc i) url)))"

definition urlparse :: "string \<Rightarrow> string \<Rightarrow> url_parts" where
  "urlparse url default_scheme =
     (let r = urlsplit url default_scheme
      in if url_scheme r \<in> set uses_params \<and> CHR '';'' \<in> set (url_path r)
         then (let (p, ps) = splitparams (url_path r) in r\<lparr>url_path := p, url_params := ps\<rparr>)
         else r)"

definition urlunparse :: "url_parts \<Rightarrow> string" where
  "urlunparse r =
     (let url0 = (if url_params r \<noteq> [] then url_path r @ '';'' @ url_params r else url_path r);
          url1 = (if url_netloc r \<noteq> [] \<or>
                     (url_scheme r \<noteq> [] \<and> url_scheme r \<in> set uses_netloc) \<or>
                     take 2 url0 = ''//''
                  then ''//'' @ url_netloc r @
                       (if url0 \<noteq> [] \<and> take 1 url0 \<noteq> ''/'' then ''/'' @ url0 else url0)
                  else url0);
          url2 = (if url_scheme r \<noteq> [] then url_scheme r @ '':'' @ url1 else url1);
          url3 = (if url_query r \<noteq> [] then url2 @ ''?'' @ url_query r else url2)
      in if url_fragment r \<noteq> [] then url3 @ ''#'' @ url_fragment r else url3)"

text \<open>The loop of \<open>urljoin\<close> that removes \<open>.\<close> and \<open>..\<close>; \<open>pop\<close> on an empty list is passed over.\<close>

fun resolve_segments :: "string list \<Rightarrow> string list \<Rightarrow> string list" where
  "resolve_segments resolved [] = resolved"
| "resolve_segments resolved (seg # segs) =
     (if seg = ''..'' then resolve_segments (butlast resolved) segs
      else if seg = ''.'' then resolve_segments resolved segs
      else resolve_segments (resolved @ [seg]) segs)"

definition urljoin :: "string \<Rightarrow> string \<Rightarrow> string" where
  "urljoin base url =
     (if base = [] then url
      else if url = [] then base
      else
        (let b = urlparse base [];
             u = urlparse url (url_scheme b)
         in if url_scheme u \<noteq> url_scheme b \<or> url_scheme u \<notin> set uses_relative then url
            else if url_scheme u \<in> set uses_netloc \<and> url_netloc u \<noteq> [] then urlunparse u
            else
              (let u1 = (if url_scheme u \<in> set uses_netloc
                         then u\<lparr>url_netloc := url_netloc b\<rparr> else u)
               in if url_path u1 = [] \<and> url_params u1 = []
                  then urlunparse
                         (u1\<lparr>url_path := url_path b, url_params := url_params b,
                             url_query := (if url_query u1 = [] then url_query b else url_query u1)\<rparr>)
                  else
                    (let base_parts0 = split_on CHR ''/'' (url_path b);
                         base_parts = (if last base_parts0 \<noteq> [] then butlast base_parts0
                                       else base_parts0);
                         segments =
                           (if take 1 (url_path u1) = ''/'' then split_on CHR ''/'' (url_path u1)
                            else (let s = base_parts @ split_on CHR ''/'' (url_path u1)
                                  in take 1 s @ filter (\<lambda>x. x \<noteq> []) (butlast (drop 1 s)) @
                                     (if length s > 1 then [last s] else [])));
                         resolved0 = resolve_segments [] segments;
                         resolved = (if last segments = ''.'' \<or> last segments = ''..''
                                     then resolved0 @ [[]] else resolved0);
                         joined = join ''/'' resolved
                     in urlunparse (u1\<lparr>url_path := (if joined = [] then ''/'' else joined)\<rparr>)))))"

section \<open>The API client\<close>

definition CHARACTER_LIMIT :: int where
  "CHARACTER_LIMIT = 25000"

record kimai_config =
  base_url :: string
  api_token :: string

text \<open>\<open>KimaiClient\<close>: its \<open>base_url\<close> attribute is the field \<open>client_base_url\<close>.\<close>

record kimai_client =
  client_base_url :: string
  headers :: "(string \<times> string) list"

definition KimaiClient_init :: "kimai_config \<Rightarrow> kimai_client" where
  "KimaiClient_init config =
     \<lparr>client_base_url = rstrip CHR ''/'' (base_url config),
      headers = [(''Authorization'', ''Bearer '' @ api_token config),
                 (''Accept'', ''application/json''),
                 (''Content-Type'', ''application/json'')]\<rparr>"

text \<open>The first line of \<open>request\<close>: \<open>url = urljoin(self.base_url, f"/api/{endpoint}")\<close>.\<close>

definition request_url :: "kimai_client \<Rightarrow> string \<Rightarrow> string" where
  "request_url self endpoint = urljoin (client_base_url self) (''/api/'' @ endpoint)"

text \<open>
  What the HTTP library hands back. A response carries its status, its raw bytes
  (\<open>content\<close>), its decoded text (\<open>.text\<close>, the field \<open>body_text\<close>) and the outcome of
  \<open>.json()\<close>: \<open>None\<close> when decoding raises. The round trip either yields a response or
  raises \<open>httpx.RequestError\<close> (timeouts included), kept with its \<open>str\<close>.
\<close>

record response =
  status_code :: int
  content :: string
  body_text :: string
  json :: "pyval option"

datatype transport = Response response | RequestError string

record http_request =
  req_method :: string
  req_url :: string
  req_headers :: "(string \<times> string) list"
  req_params :: "(string \<times> pyval) list option"
  req_json :: "pyval option"

text \<open>
  The remote system: it answers a request from its state \<open>'w\<close> and moves to a new state.
  \<open>logged\<close> runs a remote system and keeps the list of the requests sent to it.
\<close>

type_synonym 'w network = "'w \<Rightarrow> http_request \<Rightarrow> transport \<times> 'w"

definition logged :: "'w network \<Rightarrow> ('w \<times> http_request list) network" where
  "logged net s req = (let (t, w') = net (fst s) req in (t, (w', snd s @ [req])))"

text \<open>
  The exceptions that reach \<open>call_tool\<close>, each with its \<open>str\<close>. \<open>RenderError\<close> stands for
  whatever a markdown renderer raises on a record it cannot format.
\<close>

datatype py_exception =
    Exception string
  | JSONDecodeError string
  | AttributeError string
  | RenderError string

definition str_exception :: "py_exception \<Rightarrow> string" where
  "str_exception e = (case e of Exception m \<Rightarrow> m | JSONDecodeError m \<Rightarrow> m
                      | AttributeError m \<Rightarrow> m | RenderError m \<Rightarrow> m)"

text \<open>\<open>raise_for_status\<close> raises \<open>HTTPStatusError\<close> unless the status is 2xx.\<close>

definition is_success :: "int \<Rightarrow> bool" where
  "is_success code = (200 \<le> code \<and> code \<le> 299)"

text \<open>
  The handler of \<open>HTTPStatusError\<close>:
  \<^verbatim>\<open>
  try:
      error_data = e.response.json()
      error_detail = error_data.get("message", str(error_data))
  except Exception:
      error_detail = e.response.text
  \<close>
  A body that is JSON but not an object has no \<open>get\<close>: the \<open>AttributeError\<close> is caught by
  the same \<open>except\<close>. The f-string then writes the detail with \<open>str\<close>.
\<close>

definition error_detail :: "response \<Rightarrow> string" where
  "error_detail r =
     (case json r of
        None \<Rightarrow> body_text r
      | Some (PDict error_data) \<Rightarrow>
          (case map_of error_data ''message'' of
             None \<Rightarrow> py_str (PDict error_data)
           | Some v \<Rightarrow> py_str v)
      | Some _ \<Rightarrow> body_text r)"

definition api_error_message :: "response \<Rightarrow> string" where
  "api_error_message r =
     ''KIMAI API error ('' @ str_int (status_code r) @ ''): '' @ error_detail r @ ''. '' @
     ''Please check your request parameters and try again.''"

definition network_error_message :: "kimai_client \<Rightarrow> string \<Rightarrow> string" where
  "network_error_message self e =
     ''Network error connecting to KIMAI: '' @ e @ ''. '' @
     ''Please verify the KIMAI instance URL ('' @ client_base_url self @
     '') is correct and accessible.''"

definition success_marker :: pyval where
  "success_marker = PDict [(''success'', PBool True)]"

text \<open>
  \<open>KimaiClient.request\<close>: one round trip, then the status check, the test for an empty
  response, and the decoding. A body that does not decode on the success path raises the
  decoder's own error, which \<open>request\<close> does not catch; its message is abridged to
  \<open>Expecting value\<close> here.
\<close>

definition request ::
  "'w network \<Rightarrow> kimai_client \<Rightarrow> string \<Rightarrow> string \<Rightarrow> (string \<times> pyval) list option \<Rightarrow>
   pyval option \<Rightarrow> 'w \<Rightarrow> (py_exception + pyval) \<times> 'w" where
  "request net self method endpoint params json_data w =
     (let url = request_url self endpoint;
          (t, w') = net w \<lparr>req_method = method, req_url = url, req_headers = headers self,
                           req_params = params, req_json = json_data\<rparr>
      in case t of
           RequestError e \<Rightarrow> (Inl (Exception (network_error_message self e)), w')
         | Response r \<Rightarrow>
             if \<not> is_success (status_code r) then (Inl (Exception (api_error_message r)), w')
             else if status_code r = 204 \<or> content r = [] then (Inr success_marker, w')
             else (case json r of
                     None \<Rightarrow> (Inl (JSONDecodeError ''Expecting value''), w')
                   | Some v \<Rightarrow> (Inr v, w')))"

section \<open>Response formatting and the tools\<close>

text \<open>\<open>s[:k]\<close>: a negative \<open>k\<close> counts from the end.\<close>

definition slice_to :: "string \<Rightarrow> int \<Rightarrow> string" where
  "slice_to s k = (if 0 \<le> k then take (nat k) s else take (nat (int (length s) + k)) s)"

definition truncate_if_needed :: "string \<Rightarrow> int \<Rightarrow> string" where
  "truncate_if_needed txt limit =
     (if int (length txt) \<le> limit then txt
      else slice_to txt (limit - 50) @
           ''\<newline>\<newline>... [Output truncated at '' @ str_int limit @ '' characters]'')"

text \<open>The handler that closes \<open>call_tool\<close>: \<open>except Exception as e: ... f"Error: {str(e)}"\<close>.\<close>

definition error_text :: "py_exception \<Rightarrow> string" where
  "error_text e = ''Error: '' @ str_exception e"

text \<open>
  The branches of \<open>call_tool\<close> below take the validated parameters of the tool and return
  the text of the one \<open>TextContent\<close>, with the state the remote system is left in.

  \<open>get_timesheet\<close> and \<open>list_timesheets\<close> with \<open>format = "json"\<close>: the first returns
  \<open>str(result)\<close>, the second \<open>truncate_if_needed(str(result))\<close>.
\<close>

definition get_timesheet_json :: "'w network \<Rightarrow> kimai_client \<Rightarrow> int \<Rightarrow> 'w \<Rightarrow> string \<times> 'w" where
  "get_timesheet_json net client ident w =
     (case request net client ''GET'' (''timesheets/'' @ str_int ident) None None w of
        (Inl e, w') \<Rightarrow> (error_text e, w')
      | (Inr result, w') \<Rightarrow> (py_str result, w'))"

definition list_timesheets_json ::
  "'w network \<Rightarrow> kimai_client \<Rightarrow> (string \<times> pyval) list \<Rightarrow> 'w \<Rightarrow> string \<times> 'w" where
  "list_timesheets_json net client query_params w =
     (case request net client ''GET'' ''timesheets'' (Some query_params) None w of
        (Inl e, w') \<Rightarrow> (error_text e, w')
      | (Inr result, w') \<Rightarrow> (truncate_if_needed (py_str result) CHARACTER_LIMIT, w'))"

text \<open>\<open>v.get(key)\<close>: \<open>None\<close> for a missing key, \<open>AttributeError\<close> when \<open>v\<close> is no dictionary.\<close>

definition type_name :: "pyval \<Rightarrow> string" where
  "type_name v = (case v of PNone \<Rightarrow> ''NoneType'' | PBool _ \<Rightarrow> ''bool'' | PInt _ \<Rightarrow> ''int''
                  | PStr _ \<Rightarrow> ''str'' | PList _ \<Rightarrow> ''list'' | PDict _ \<Rightarrow> ''dict'')"

definition py_get :: "pyval \<Rightarrow> string \<Rightarrow> py_exception + pyval" where
  "py_get v key =
     (case v of
        PDict kvs \<Rightarrow> Inr (case map_of kvs key of None \<Rightarrow> PNone | Some x \<Rightarrow> x)
      | _ \<Rightarrow> Inl (AttributeError
                 ([CHR 0x27] @ type_name v @ [CHR 0x27] @ '' object has no attribute '' @
                  [CHR 0x27] @ ''get'' @ [CHR 0x27])))"

definition not_running_text :: "int \<Rightarrow> string" where
  "not_running_text ident =
     cross_mark @ '' Error: Timesheet #'' @ str_int ident @
     '' is not running (already has an end time).''"

text \<open>
  The branch \<open>stop_timesheet\<close>. The clock reading \<open>now\<close> (already formatted) and the
  renderer \<open>format_timesheet_markdown\<close> are parameters: the renderer formats a
  floating-point number of hours, and it may raise on a malformed record.
\<close>

definition stop_timesheet ::
  "'w network \<Rightarrow> kimai_client \<Rightarrow> string \<Rightarrow> (pyval \<Rightarrow> py_exception + string) \<Rightarrow> int \<Rightarrow> 'w \<Rightarrow>
   string \<times> 'w" where
  "stop_timesheet net client now format_timesheet_markdown ident w =
     (case request net client ''GET'' (''timesheets/'' @ str_int ident) None None w of
        (Inl e, w1) \<Rightarrow> (error_text e, w1)
      | (Inr current, w1) \<Rightarrow>
          (case py_get current ''end'' of
             Inl e \<Rightarrow> (error_text e, w1)
           | Inr end_value \<Rightarrow>
               if end_value \<noteq> PNone then (not_running_text ident, w1)
               else
                 (case request net client ''PATCH'' (''timesheets/'' @ str_int ident) None
                         (Some (PDict [(''end'', PStr now)])) w1 of
                    (Inl e, w2) \<Rightarrow> (error_text e, w2)
                  | (Inr result, w2) \<Rightarrow>
                      (case format_timesheet_markdown result of
                         Inl e \<Rightarrow> (error_text e, w2)
                       | Inr md \<Rightarrow>
                           (check_mark @ '' Timesheet stopped successfully!'' @
                            ''\<newline>\<newline>'' @ md, w2)))))"

section \<open>The summary aggregator of \<open>get_timesheet_summary\<close>\<close>

text \<open>
  A time entry is the dictionary the remote API returns for one timesheet. The aggregation
  reads four of its keys, each with \<open>.get\<close>. For \<open>billable\<close>, \<open>project\<close> and \<open>activity\<close> a key
  that is absent and a key whose value is \<open>null\<close> both read as Python's \<open>None\<close>: that is the
  \<open>None\<close> of their option types. For \<open>duration\<close>, read with the default 0, \<open>None\<close> is the
  absent key; a duration that is present is an integer, as the data model has it (unbounded,
  as Python's integers are). Identifiers are integers.
\<close>

record time_entry =
  duration :: "int option"
  billable :: "bool option"
  project :: "int option"
  activity :: "int option"

text \<open>\<open>t.get("duration", 0)\<close> for an entry whose duration, when present, is an integer.\<close>

definition get_duration :: "time_entry \<Rightarrow> int" where
  "get_duration t = (case duration t of None \<Rightarrow> 0 | Some d \<Rightarrow> d)"

text \<open>The truth value of \<open>t.get("billable")\<close>: \<open>None\<close> and \<open>False\<close> are falsy.\<close>

definition is_billable :: "time_entry \<Rightarrow> bool" where
  "is_billable t = (case billable t of None \<Rightarrow> False | Some b \<Rightarrow> b)"

definition total_duration :: "time_entry list \<Rightarrow> int" where
  "total_duration timesheets = sum_list (map get_duration timesheets)"

definition billable_duration :: "time_entry list \<Rightarrow> int" where
  "billable_duration timesheets = sum_list (map get_duration (filter is_billable timesheets))"

subsection \<open>Grouping\<close>

text \<open>
  One group is the inner dictionary \<open>{"duration": 0, "count": 0}\<close>; its \<open>duration\<close> key is
  the field \<open>duration_sum\<close> here (the entry record owns the name \<open>duration\<close>).
  A Python dictionary keeps its keys in insertion order, and the rendering depends on that
  order, so \<open>by_project\<close> and \<open>by_activity\<close> are association lists in insertion order.
\<close>

record group =
  duration_sum :: int
  count :: int

type_synonym groups = "(int option \<times> group) list"

text \<open>\<open>d[k] = v\<close>: an existing key keeps its place, a new key goes to the end.\<close>

fun dict_set :: "('k \<times> 'v) list \<Rightarrow> 'k \<Rightarrow> 'v \<Rightarrow> ('k \<times> 'v) list" where
  "dict_set [] k v = [(k, v)]"
| "dict_set ((k', v') # d) k v =
     (if k' = k then (k', v) # d else (k', v') # dict_set d k v)"

text \<open>
  The body of each grouping loop, for the key \<open>k\<close> and the duration \<open>secs\<close> of one entry:
  \<^verbatim>\<open>
  if k not in d: d[k] = {"duration": 0, "count": 0}
  d[k]["duration"] += secs
  d[k]["count"] += 1
  \<close>
  The lookup \<open>d[k]\<close> would raise \<open>KeyError\<close> on a missing key; the key was inserted the
  line before, so that branch is never taken (lemma \<open>add_to_group_present\<close>).
\<close>

definition add_to_group :: "int option \<Rightarrow> int \<Rightarrow> groups \<Rightarrow> groups" where
  "add_to_group k secs d =
     (let d1 = (if k \<notin> set (map fst d) then dict_set d k \<lparr>duration_sum = 0, count = 0\<rparr> else d)
      in case map_of d1 k of
           None \<Rightarrow> d1
         | Some g \<Rightarrow> dict_set d1 k (g\<lparr>duration_sum := duration_sum g + secs, count := count g + 1\<rparr>))"

definition group_by :: "(time_entry \<Rightarrow> int option) \<Rightarrow> time_entry list \<Rightarrow> groups" where
  "group_by key timesheets =
     fold (\<lambda>ts d. add_to_group (key ts) (get_duration ts) d) timesheets []"

definition by_project :: "time_entry list \<Rightarrow> groups" where
  "by_project timesheets = group_by project timesheets"

definition by_activity :: "time_entry list \<Rightarrow> groups" where
  "by_activity timesheets = group_by activity timesheets"

text \<open>\<open>sum(g["duration"] for g in d.values())\<close> and \<open>sum(g["count"] for g in d.values())\<close>.\<close>

definition sum_seconds :: "groups \<Rightarrow> int" where
  "sum_seconds d = sum_list (map (\<lambda>kv. duration_sum (snd kv)) d)"

definition sum_counts :: "groups \<Rightarrow> int" where
  "sum_counts d = sum_list (map (\<lambda>kv. count (snd kv)) d)"

subsection \<open>Rendering order\<close>

text \<open>
  The markdown report walks
  \<open>sorted(by_project.items(), key=lambda x: x[1]["duration"], reverse=True)\<close>.
  Python's sort is stable, and with \<open>reverse=True\<close> items of equal key still keep their
  original order: that is the stable sort on the negated key.
\<close>

definition sorted_groups :: "groups \<Rightarrow> groups" where
  "sorted_groups d = sort_key (\<lambda>kv. - duration_sum (snd kv)) d"

text \<open>
  For the statements: the keys of a list in the order in which each is first met, and the
  entries whose key (project or activity) is \<open>k\<close>.
\<close>

fun first_seen :: "'a list \<Rightarrow> 'a list" where
  "first_seen [] = []"
| "first_seen (k # ks) = k # filter (\<lambda>x. x \<noteq> k) (first_seen ks)"

definition entries_of ::
  "(time_entry \<Rightarrow> int option) \<Rightarrow> int option \<Rightarrow> time_entry list \<Rightarrow> time_entry list" where
  "entries_of key k timesheets = filter (\<lambda>t. key t = k) timesheets"

subsection \<open>Hours and percentages\<close>

text \<open>
  Python computes hours and percentages as floats, that is IEEE 754 doubles. A double is
  modelled by the rational number it denotes, and every floating-point operation by the
  exact operation followed by \<open>fl\<close>, which rounds a rational to the nearest number with a
  significand of 53 bits, a tie going to the even significand. The exponent range of doubles
  is modelled in one place only, the division of two integers, where Python raises
  \<open>OverflowError\<close>; the operations on floats have no bound on the exponent here, where Python
  would give \<open>inf\<close> above \<open>2 ^ 1024\<close> and round to a coarser grid below \<open>2 ^ -1022\<close>. With
  durations that are not negative no operation on floats overflows once the divisions have
  succeeded, and none comes near the lower bound unless the total exceeds \<open>2 ^ 900\<close> hours.
\<close>

text \<open>The number of binary digits of a positive integer, and the powers of two.\<close>

function bitlen :: "int \<Rightarrow> int" where
  "bitlen n = (if n \<le> 0 then 0 else 1 + bitlen (n div 2))"
  by pat_completeness auto
termination
  by (relation "measure nat") auto

declare bitlen.simps [simp del]

definition pow2 :: "int \<Rightarrow> rat" where
  "pow2 e = (if 0 \<le> e then 2 ^ nat e else 1 / 2 ^ nat (- e))"

text \<open>
  For a positive \<open>x\<close>, the exponent \<open>k\<close> with \<open>2 ^ k \<le> x < 2 ^ (k + 1)\<close>: the digits of
  numerator and denominator leave two candidates.
\<close>

definition ilog2 :: "rat \<Rightarrow> int" where
  "ilog2 x =
     (let (p, q) = quotient_of x;
          k = bitlen p - bitlen q
      in if pow2 k \<le> x then k else k - 1)"

text \<open>The nearest integer, a tie going to the even one.\<close>

definition round_half_even :: "rat \<Rightarrow> int" where
  "round_half_even m =
     (let f = \<lfloor>m\<rfloor>; r = m - of_int f
      in if r < 1 / 2 then f else if 1 / 2 < r then f + 1
         else if even f then f else f + 1)"

text \<open>Rounding to a double: the significand \<open>x / 2 ^ e\<close> lies between \<open>2 ^ 52\<close> and \<open>2 ^ 53\<close>.\<close>

definition fl_pos :: "rat \<Rightarrow> rat" where
  "fl_pos x = (let e = ilog2 x - 52 in of_int (round_half_even (x / pow2 e)) * pow2 e)"

definition fl :: "rat \<Rightarrow> rat" where
  "fl x = (if x = 0 then 0 else if 0 < x then fl_pos x else - fl_pos (- x))"

datatype arith_error = ZeroDivisionError | OverflowError

text \<open>\<open>a / b\<close> for two floats: \<open>ZeroDivisionError\<close> on a zero divisor.\<close>

definition truediv :: "rat \<Rightarrow> rat \<Rightarrow> arith_error + rat" where
  "truediv a b = (if b = 0 then Inl ZeroDivisionError else Inr (fl (a / b)))"

text \<open>
  \<open>secs / 3600\<close> for the integer \<open>secs\<close>: the quotient of two integers, correctly rounded;
  \<open>OverflowError\<close> when the rounded quotient is beyond the largest double.
\<close>

definition hours_of :: "int \<Rightarrow> arith_error + rat" where
  "hours_of secs =
     (let q = fl (of_int secs / 3600)
      in if 2 ^ 1024 \<le> \<bar>q\<bar> then Inl OverflowError else Inr q)"

text \<open>\<open>(part/total_hours*100) if total_hours > 0 else 0\<close>.\<close>

definition percent_of :: "rat \<Rightarrow> rat \<Rightarrow> arith_error + rat" where
  "percent_of part total_hours =
     (if total_hours > 0
      then (case truediv part total_hours of Inl e \<Rightarrow> Inl e | Inr q \<Rightarrow> Inr (fl (q * 100)))
      else Inr 0)"

text \<open>
  \<open>round(x, 2)\<close> for a float: the value of \<open>x\<close> rounded to the nearest hundredth, a tie going
  to the even one, and then the double nearest to that decimal number.
\<close>

definition round2 :: "rat \<Rightarrow> rat" where
  "round2 x = fl (of_int (round_half_even (x * 100)) / 100)"

text \<open>\<open>str(k)\<close> of a group key.\<close>

definition str_key :: "int option \<Rightarrow> string" where
  "str_key k = (case k of None \<Rightarrow> ''None'' | Some i \<Rightarrow> str_int i)"

text \<open>
  One line of the report per group, \<open>hours = data["duration"] / 3600\<close> with the count; and
  one item of the JSON summary per group, \<open>{"hours": round(v["duration"] / 3600, 2),
  "count": v["count"]}\<close> under \<open>str(k)\<close>.
\<close>

fun group_lines :: "groups \<Rightarrow> arith_error + (int option \<times> rat \<times> int) list" where
  "group_lines [] = Inr []"
| "group_lines ((k, g) # d) =
     (case hours_of (duration_sum g) of
        Inl e \<Rightarrow> Inl e
      | Inr h \<Rightarrow>
          (case group_lines d of
             Inl e \<Rightarrow> Inl e
           | Inr ls \<Rightarrow> Inr ((k, h, count g) # ls)))"

fun group_items :: "groups \<Rightarrow> arith_error + (string \<times> rat \<times> int) list" where
  "group_items [] = Inr []"
| "group_items ((k, g) # d) =
     (case hours_of (duration_sum g) of
        Inl e \<Rightarrow> Inl e
      | Inr h \<Rightarrow>
          (case group_items d of
             Inl e \<Rightarrow> Inl e
           | Inr ls \<Rightarrow> Inr ((str_key k, round2 h, count g) # ls)))"

text \<open>
  The numbers the markdown report writes (the fields \<open>md_\<close>) and the JSON summary (the
  fields \<open>js_\<close>), before they are formatted as text.
\<close>

record markdown_report =
  md_total_entries :: int
  md_total_hours :: rat
  md_billable_hours :: rat
  md_billable_percent :: rat
  md_non_billable_hours :: rat
  md_non_billable_percent :: rat
  md_by_project :: "(int option \<times> rat \<times> int) list"
  md_by_activity :: "(int option \<times> rat \<times> int) list"

record json_summary =
  js_total_entries :: int
  js_total_hours :: rat
  js_billable_hours :: rat
  js_non_billable_hours :: rat
  js_by_project :: "(string \<times> rat \<times> int) list"
  js_by_activity :: "(string \<times> rat \<times> int) list"

text \<open>
  The statistics at the head of the branch: \<open>total_hours\<close>, \<open>billable_hours\<close> and
  \<open>non_billable_hours = total_hours - billable_hours\<close>, a subtraction of two floats.
\<close>

definition summary_hours :: "time_entry list \<Rightarrow> arith_error + rat \<times> rat \<times> rat" where
  "summary_hours timesheets =
     (case hours_of (total_duration timesheets) of
        Inl e \<Rightarrow> Inl e
      | Inr total_hours \<Rightarrow>
          (case hours_of (billable_duration timesheets) of
             Inl e \<Rightarrow> Inl e
           | Inr billable_hours \<Rightarrow>
               Inr (total_hours, billable_hours, fl (total_hours - billable_hours))))"

definition summary_markdown :: "time_entry list \<Rightarrow> arith_error + markdown_report" where
  "summary_markdown timesheets =
     (case summary_hours timesheets of
        Inl e \<Rightarrow> Inl e
      | Inr (total_hours, billable_hours, non_billable_hours) \<Rightarrow>
     (case percent_of billable_hours total_hours of
        Inl e \<Rightarrow> Inl e
      | Inr billable_percent \<Rightarrow>
     (case percent_of non_billable_hours total_hours of
        Inl e \<Rightarrow> Inl e
      | Inr non_billable_percent \<Rightarrow>
     (case group_lines (sorted_groups (by_project timesheets)) of
        Inl e \<Rightarrow> Inl e
      | Inr project_lines \<Rightarrow>
     (case group_lines (sorted_groups (by_activity timesheets)) of
        Inl e \<Rightarrow> Inl e
      | Inr activity_lines \<Rightarrow>
          Inr \<lparr>md_total_entries = int (length timesheets),
               md_total_hours = total_hours,
               md_billable_hours = billable_hours,
               md_billable_percent = billable_percent,
               md_non_billable_hours = non_billable_hours,
               md_non_billable_percent = non_billable_percent,
               md_by_project = project_lines,
               md_by_activity = activity_lines\<rparr>)))))"

definition summary_json :: "time_entry list \<Rightarrow> arith_error + json_summary" where
  "summary_json timesheets =
     (case summary_hours timesheets of
        Inl e \<Rightarrow> Inl e
      | Inr (total_hours, billable_hours, non_billable_hours) \<Rightarrow>
     (case group_items (by_project timesheets) of
        Inl e \<Rightarrow> Inl e
      | Inr project_items \<Rightarrow>
     (case group_items (by_activity timesheets) of
        Inl e \<Rightarrow> Inl e
      | Inr activity_items \<Rightarrow>
          Inr \<lparr>js_total_entries = int (length timesheets),
               js_total_hours = round2 total_hours,
               js_billable_hours = round2 billable_hours,
               js_non_billable_hours = round2 non_billable_hours,
               js_by_project = project_items,
               js_by_activity = activity_items\<rparr>)))"

section \<open>Fixtures for the examples\<close>

text \<open>
  A remote system that answers every request with the same response and has no state of its
  own to change; a client configured as the source's default configuration is; two entries
  of 7 and 15 seconds, the first billable; two entries of one and two hours on two projects;
  and a timesheet that has already ended, as the body the remote system sends and as the
  value it decodes to.
\<close>

definition fixed_reply :: "response \<Rightarrow> 'w network" where
  "fixed_reply r w req = (Response r, w)"

definition example_client :: kimai_client where
  "example_client = KimaiClient_init \<lparr>base_url = ''http://localhost:8001'', api_token = ''token''\<rparr>"


definition two_projects :: "time_entry list" where
  "two_projects =
     [\<lparr>duration = Some 3600, billable = Some True, project = Some 1, activity = Some 10\<rparr>,
      \<lparr>duration = Some 7200, billable = Some True, project = Some 2, activity = Some 10\<rparr>]"

definition ended_timesheet_body :: string where
  \<open>ended_timesheet_body =
     ''{"id":5,"begin":"2025-11-06T09:00:00+0000","end":"2025-11-06T17:00:00+0000","duration":28800}''\<close>

definition ended_timesheet :: pyval where
  "ended_timesheet =
     PDict [(''id'', PInt 5), (''begin'', PStr ''2025-11-06T09:00:00+0000''),
            (''end'', PStr ''2025-11-06T17:00:00+0000''), (''duration'', PInt 28800)]"

section \<open>Properties of the grouping\<close>

lemma dict_set_keys_new:
  "k \<notin> set (map fst d) \<Longrightarrow> map fst (dict_set d k v) = map fst d @ [k]"
  by (induction d) auto

lemma dict_set_keys_old:
  "k \<in> set (map fst d) \<Longrightarrow> map fst (dict_set d k v) = map fst d"
  by (induction d) force+

lemma dict_set_new:
  "k \<notin> set (map fst d) \<Longrightarrow> dict_set d k v = d @ [(k, v)]"
  by (induction d) auto

lemma map_of_dict_set:
  "map_of (dict_set d k v) k' = (if k' = k then Some v else map_of d k')"
  by (induction d) auto

lemma sum_seconds_dict_set_old:
  "map_of d k = Some g \<Longrightarrow>
   sum_seconds (dict_set d k v) = sum_seconds d - duration_sum g + duration_sum v"
  by (induction d) (auto simp: sum_seconds_def)

lemma sum_counts_dict_set_old:
  "map_of d k = Some g \<Longrightarrow>
   sum_counts (dict_set d k v) = sum_counts d - count g + count v"
  by (induction d) (auto simp: sum_counts_def)

lemma map_of_absent: "k \<notin> set (map fst d) \<Longrightarrow> map_of d k = None"
  by (induction d) auto

lemma map_of_present: "k \<in> set (map fst d) \<Longrightarrow> \<exists>g. map_of d k = Some g"
  by (induction d) auto

text \<open>The two cases of the loop body, written out.\<close>

lemma add_to_group_new:
  "k \<notin> set (map fst d) \<Longrightarrow>
   add_to_group k secs d = d @ [(k, \<lparr>duration_sum = secs, count = 1\<rparr>)]"
proof -
  assume new: "k \<notin> set (map fst d)"
  let ?z = "\<lparr>duration_sum = 0, count = 0\<rparr>"
  have "map_of (dict_set d k ?z) k = Some ?z"
    by (simp add: map_of_dict_set)
  moreover have "dict_set (d @ [(k, ?z)]) k v = d @ [(k, v)]" for v
    using new by (induction d) auto
  ultimately show ?thesis
    using new by (simp add: add_to_group_def dict_set_new)
qed

lemma add_to_group_old:
  "map_of d k = Some g \<Longrightarrow>
   add_to_group k secs d =
     dict_set d k (g\<lparr>duration_sum := duration_sum g + secs, count := count g + 1\<rparr>)"
proof -
  assume old: "map_of d k = Some g"
  then have "k \<in> set (map fst d)"
    using map_of_absent [of k d] by auto
  with old show ?thesis
    by (simp add: add_to_group_def)
qed

lemma add_to_group_present: "map_of (add_to_group k secs d) k \<noteq> None"
proof (cases "k \<in> set (map fst d)")
  case True
  from map_of_present [OF True] obtain g where g: "map_of d k = Some g" ..
  show ?thesis
    unfolding add_to_group_old [OF g] by (simp add: map_of_dict_set)
next
  case False
  show ?thesis
    unfolding add_to_group_new [OF False] by simp
qed

lemma sum_seconds_add: "sum_seconds (add_to_group k secs d) = sum_seconds d + secs"
proof (cases "k \<in> set (map fst d)")
  case True
  from map_of_present [OF True] obtain g where g: "map_of d k = Some g" ..
  show ?thesis
    unfolding add_to_group_old [OF g] sum_seconds_dict_set_old [OF g] by simp
next
  case False
  show ?thesis
    unfolding add_to_group_new [OF False] by (simp add: sum_seconds_def)
qed

lemma sum_counts_add: "sum_counts (add_to_group k secs d) = sum_counts d + 1"
proof (cases "k \<in> set (map fst d)")
  case True
  from map_of_present [OF True] obtain g where g: "map_of d k = Some g" ..
  show ?thesis
    unfolding add_to_group_old [OF g] sum_counts_dict_set_old [OF g] by simp
next
  case False
  show ?thesis
    unfolding add_to_group_new [OF False] by (simp add: sum_counts_def)
qed

lemma group_by_Nil: "group_by key [] = []"
  by (simp add: group_by_def)

lemma group_by_snoc:
  "group_by key (timesheets @ [ts]) =
     add_to_group (key ts) (get_duration ts) (group_by key timesheets)"
  by (simp add: group_by_def)

lemma sum_seconds_group_by: "sum_seconds (group_by key timesheets) = total_duration timesheets"
proof (induction timesheets rule: rev_induct)
  case Nil
  show ?case
    by (simp add: group_by_Nil total_duration_def sum_seconds_def)
next
  case (snoc ts timesheets)
  then show ?case
    by (simp add: group_by_snoc sum_seconds_add total_duration_def)
qed

lemma sum_counts_group_by: "sum_counts (group_by key timesheets) = int (length timesheets)"
proof (induction timesheets rule: rev_induct)
  case Nil
  show ?case
    by (simp add: group_by_Nil sum_counts_def)
next
  case (snoc ts timesheets)
  then show ?case
    by (simp add: group_by_snoc sum_counts_add)
qed

lemma keys_add_to_group:
  "map fst (add_to_group k secs d) =
     (if k \<in> set (map fst d) then map fst d else map fst d @ [k])"
proof (cases "k \<in> set (map fst d)")
  case True
  from map_of_present [OF True] obtain g where g: "map_of d k = Some g" ..
  show ?thesis
    unfolding add_to_group_old [OF g] using True by (simp add: dict_set_keys_old)
next
  case False
  show ?thesis
    unfolding add_to_group_new [OF False] using False by simp
qed

lemma map_of_add_to_group:
  "map_of (add_to_group k secs d) k' =
     (if k' = k
      then Some (case map_of d k of
                   None \<Rightarrow> \<lparr>duration_sum = secs, count = 1\<rparr>
                 | Some g \<Rightarrow> \<lparr>duration_sum = duration_sum g + secs, count = count g + 1\<rparr>)
      else map_of d k')"
proof (cases "k \<in> set (map fst d)")
  case True
  from map_of_present [OF True] obtain g where g: "map_of d k = Some g" ..
  show ?thesis
    unfolding add_to_group_old [OF g] by (simp add: map_of_dict_set g)
next
  case False
  have "map_of d k = None"
    using False by (rule map_of_absent)
  then show ?thesis
    unfolding add_to_group_new [OF False] by (simp add: map_add_def split: option.splits)
qed

lemma set_first_seen: "set (first_seen ks) = set ks"
  by (induction ks) auto

lemma first_seen_snoc:
  "first_seen (ks @ [k]) = (if k \<in> set ks then first_seen ks else first_seen ks @ [k])"
  by (induction ks) auto

lemma keys_group_by: "map fst (group_by key timesheets) = first_seen (map key timesheets)"
proof (induction timesheets rule: rev_induct)
  case Nil
  show ?case by (simp add: group_by_Nil)
next
  case (snoc ts timesheets)
  have "set (map fst (group_by key timesheets)) = set (map key timesheets)"
    unfolding snoc.IH by (rule set_first_seen)
  then show ?case
    unfolding group_by_snoc keys_add_to_group
    by (simp add: snoc.IH first_seen_snoc)
qed

lemma distinct_first_seen: "distinct (first_seen ks)"
  by (induction ks) (auto simp: set_first_seen)

lemma distinct_keys_group_by: "distinct (map fst (group_by key timesheets))"
  by (simp add: keys_group_by distinct_first_seen)

lemma map_of_group_by:
  "map_of (group_by key timesheets) k =
     (if entries_of key k timesheets = [] then None
      else Some \<lparr>duration_sum = sum_list (map get_duration (entries_of key k timesheets)),
                 count = int (length (entries_of key k timesheets))\<rparr>)"
proof (induction timesheets rule: rev_induct)
  case Nil
  show ?case by (simp add: group_by_Nil entries_of_def)
next
  case (snoc ts timesheets)
  show ?case
  proof (cases "k = key ts")
    case True
    show ?thesis
      unfolding group_by_snoc map_of_add_to_group True snoc.IH [unfolded True]
      by (simp add: entries_of_def)
  next
    case False
    then show ?thesis
      unfolding group_by_snoc map_of_add_to_group snoc.IH
      by (auto simp: entries_of_def)
  qed
qed

lemma one_item_per_key:
  "distinct (map fst d) \<Longrightarrow>
   length (filter (\<lambda>kv. fst kv = k) d) = (if k \<in> set (map fst d) then 1 else 0)"
  by (induction d) force+

lemma key_in_group_by:
  "k \<in> set (map fst (group_by key timesheets)) \<longleftrightarrow> entries_of key k timesheets \<noteq> []"
  by (auto simp: keys_group_by set_first_seen entries_of_def filter_empty_conv)

section \<open>Rounding to doubles\<close>














lemma fl_zero: "fl 0 = 0"
  by (simp add: fl_def)

lemma round_half_even_zero: "round_half_even 0 = 0"
  by (simp add: round_half_even_def)

lemma round2_zero: "round2 0 = 0"
  by (simp add: round2_def round_half_even_zero fl_zero)

section \<open>The arithmetic of the report\<close>

text \<open>
  The divisions of the report can fail with \<open>OverflowError\<close> only, never by a zero divisor;
  and when a rendering is produced, its groups are those of the mapping, in the order the
  rendering walks them.
\<close>

lemma hours_of_zero: "hours_of 0 = Inr 0"
  by (simp add: hours_of_def fl_zero)

lemma hours_of_cases:
  "hours_of secs = Inl OverflowError \<or> hours_of secs = Inr (fl (of_int secs / 3600))"
  by (simp add: hours_of_def Let_def)

lemma percent_of_total: "\<exists>p. percent_of a b = Inr p"
  by (simp add: percent_of_def truediv_def)

lemma percent_of_not_Inl: "percent_of a b \<noteq> Inl e"
  by (simp add: percent_of_def truediv_def)

lemma group_lines_no_zero_division: "group_lines d \<noteq> Inl ZeroDivisionError"
proof (induction d)
  case Nil
  show ?case by simp
next
  case (Cons kv d)
  obtain k g where kv: "kv = (k, g)"
    by (cases kv)
  from hours_of_cases [of "duration_sum g"] Cons show ?case
    unfolding kv by (auto split: sum.splits)
qed

lemma group_items_no_zero_division: "group_items d \<noteq> Inl ZeroDivisionError"
proof (induction d)
  case Nil
  show ?case by simp
next
  case (Cons kv d)
  obtain k g where kv: "kv = (k, g)"
    by (cases kv)
  from hours_of_cases [of "duration_sum g"] Cons show ?case
    unfolding kv by (auto split: sum.splits)
qed

lemma summary_hours_no_zero_division: "summary_hours timesheets \<noteq> Inl ZeroDivisionError"
  using hours_of_cases [of "total_duration timesheets"]
    hours_of_cases [of "billable_duration timesheets"]
  by (auto simp: summary_hours_def split: sum.splits)

lemma summary_never_divides_by_zero:
  "summary_markdown timesheets \<noteq> Inl ZeroDivisionError \<and>
   summary_json timesheets \<noteq> Inl ZeroDivisionError"
proof -
  have "summary_markdown timesheets \<noteq> Inl ZeroDivisionError"
    using summary_hours_no_zero_division [of timesheets]
      group_lines_no_zero_division [of "sorted_groups (by_project timesheets)"]
      group_lines_no_zero_division [of "sorted_groups (by_activity timesheets)"]
    by (auto simp: summary_markdown_def percent_of_not_Inl split: sum.splits prod.splits)
  moreover have "summary_json timesheets \<noteq> Inl ZeroDivisionError"
    using summary_hours_no_zero_division [of timesheets]
      group_items_no_zero_division [of "by_project timesheets"]
      group_items_no_zero_division [of "by_activity timesheets"]
    by (auto simp: summary_json_def split: sum.splits prod.splits)
  ultimately show ?thesis ..
qed


lemma group_lines_keys: "group_lines d = Inr ls \<Longrightarrow> map fst ls = map fst d"
proof (induction d arbitrary: ls)
  case Nil
  then show ?case by simp
next
  case (Cons kv d)
  obtain k g where kv: "kv = (k, g)"
    by (cases kv)
  from Cons.prems Cons.IH show ?case
    unfolding kv by (auto split: sum.splits)
qed

lemma group_items_keys:
  "group_items d = Inr ls \<Longrightarrow> map fst ls = map (\<lambda>kv. str_key (fst kv)) d"
proof (induction d arbitrary: ls)
  case Nil
  then show ?case by simp
next
  case (Cons kv d)
  obtain k g where kv: "kv = (k, g)"
    by (cases kv)
  from Cons.prems Cons.IH show ?case
    unfolding kv by (auto split: sum.splits)
qed

lemma report_lists_sorted_groups:
  assumes "summary_markdown timesheets = Inr r"
  shows "map fst (md_by_project r) = map fst (sorted_groups (by_project timesheets))"
    and "map fst (md_by_activity r) = map fst (sorted_groups (by_activity timesheets))"
  using assms
  by (auto simp: summary_markdown_def group_lines_keys split: sum.splits prod.splits)

lemma json_lists_groups_unsorted:
  assumes "summary_json timesheets = Inr s"
  shows "map fst (js_by_project s) = map str_key (first_seen (map project timesheets))"
    and "map fst (js_by_activity s) = map str_key (first_seen (map activity timesheets))"
proof -
  have k: "map (\<lambda>kv. str_key (fst kv)) (group_by key timesheets) =
      map str_key (first_seen (map key timesheets))" for key
    using keys_group_by [of key timesheets, symmetric] by (simp add: comp_def)
  from assms show "map fst (js_by_project s) = map str_key (first_seen (map project timesheets))"
    by (auto simp: summary_json_def by_project_def group_items_keys k
        split: sum.splits prod.splits)
  from assms show "map fst (js_by_activity s) = map str_key (first_seen (map activity timesheets))"
    by (auto simp: summary_json_def by_activity_def group_items_keys k
        split: sum.splits prod.splits)
qed

section \<open>The summaries of the example entries\<close>






lemma fl_small:
  "fl 1 = 1" "fl 2 = 2" "fl 3 = 3" "fl 100 = 100"
  by code_simp+

lemma fl_hours:
  "fl (3600 / 3600) = 1" "fl (7200 / 3600) = 2" "fl (10800 / 3600) = 3"
  by (simp_all add: fl_small)

lemma hours_of_two_projects:
  "hours_of 3600 = Inr 1" "hours_of 7200 = Inr 2" "hours_of 10800 = Inr 3"
  unfolding hours_of_def Let_def of_int_numeral fl_hours by simp_all

lemma round2_small: "round2 1 = 1" "round2 2 = 2" "round2 3 = 3"
  by (simp_all add: round2_def round_half_even_def fl_small)

lemma groups_two_projects:
  "by_project two_projects =
     [(Some 1, \<lparr>duration_sum = 3600, count = 1\<rparr>), (Some 2, \<lparr>duration_sum = 7200, count = 1\<rparr>)]"
  "by_activity two_projects = [(Some 10, \<lparr>duration_sum = 10800, count = 2\<rparr>)]"
  "sorted_groups
     [(Some 1, \<lparr>duration_sum = 3600, count = 1\<rparr>), (Some 2, \<lparr>duration_sum = 7200, count = 1\<rparr>)] =
     [(Some 2, \<lparr>duration_sum = 7200, count = 1\<rparr>), (Some 1, \<lparr>duration_sum = 3600, count = 1\<rparr>)]"
  "sorted_groups [(Some 10, \<lparr>duration_sum = 10800, count = 2\<rparr>)] =
     [(Some 10, \<lparr>duration_sum = 10800, count = 2\<rparr>)]"
  by code_simp+

lemma length_two_projects: "length two_projects = 2"
  by (simp add: two_projects_def)

lemma summary_hours_two_projects: "summary_hours two_projects = Inr (3, 3, 0)"
proof -
  have "total_duration two_projects = 10800" "billable_duration two_projects = 10800"
    by (simp_all add: total_duration_def billable_duration_def two_projects_def
        get_duration_def is_billable_def)
  then show ?thesis
    by (simp add: summary_hours_def hours_of_two_projects fl_zero)
qed

lemma str_key_small: "str_key (Some 1) = ''1''" "str_key (Some 2) = ''2''" "str_key (Some 10) = ''10''"
  by (simp_all add: str_key_def str_int_def digits.simps)

lemma summary_markdown_two_projects:
  "summary_markdown two_projects =
     Inr \<lparr>md_total_entries = 2, md_total_hours = 3, md_billable_hours = 3,
          md_billable_percent = 100, md_non_billable_hours = 0, md_non_billable_percent = 0,
          md_by_project = [(Some 2, 2, 1), (Some 1, 1, 1)],
          md_by_activity = [(Some 10, 3, 2)]\<rparr>"
proof -
  have p: "percent_of 3 3 = Inr 100" "percent_of 0 3 = Inr 0"
    by (simp_all add: percent_of_def truediv_def fl_small fl_zero)
  show ?thesis
    by (simp add: summary_markdown_def summary_hours_two_projects p groups_two_projects
        hours_of_two_projects length_two_projects)
qed

lemma summary_json_two_projects:
  "summary_json two_projects =
     Inr \<lparr>js_total_entries = 2, js_total_hours = 3, js_billable_hours = 3,
          js_non_billable_hours = 0,
          js_by_project = [(''1'', 1, 1), (''2'', 2, 1)],
          js_by_activity = [(''10'', 3, 2)]\<rparr>"
  by (simp add: summary_json_def summary_hours_two_projects groups_two_projects
      hours_of_two_projects round2_small round2_zero str_key_small length_two_projects)

section \<open>The summary claims\<close>

text \<open>
  C1. For every list of time entries, the seconds of the groups of \<open>by_project\<close> add up to
  the total seconds, so do those of \<open>by_activity\<close>, and the counts of the groups of each
  mapping add up to the number of entries. Each key has one item, so these are sums over the
  keys of the mapping.
\<close>

theorem group_sums_equal_totals:
  "sum_seconds (by_project timesheets) = total_duration timesheets \<and>
   sum_seconds (by_activity timesheets) = total_duration timesheets \<and>
   sum_counts (by_project timesheets) = int (length timesheets) \<and>
   sum_counts (by_activity timesheets) = int (length timesheets) \<and>
   distinct (map fst (by_project timesheets)) \<and>
   distinct (map fst (by_activity timesheets))"
  by (simp add: by_project_def by_activity_def sum_seconds_group_by sum_counts_group_by
      distinct_keys_group_by)




text \<open>
  C3. When some entries have no project identifier (null or absent), \<open>by_project\<close> has
  exactly one item under the key \<open>None\<close>, and that group holds the sum of the durations of
  those entries and their number; the same for the activity identifier and \<open>by_activity\<close>.
\<close>

theorem missing_ids_one_group:
  "(entries_of project None timesheets \<noteq> [] \<longrightarrow>
      length (filter (\<lambda>kv. fst kv = None) (by_project timesheets)) = 1 \<and>
      map_of (by_project timesheets) None =
        Some \<lparr>duration_sum = sum_list (map get_duration (entries_of project None timesheets)),
               count = int (length (entries_of project None timesheets))\<rparr>) \<and>
   (entries_of activity None timesheets \<noteq> [] \<longrightarrow>
      length (filter (\<lambda>kv. fst kv = None) (by_activity timesheets)) = 1 \<and>
      map_of (by_activity timesheets) None =
        Some \<lparr>duration_sum = sum_list (map get_duration (entries_of activity None timesheets)),
               count = int (length (entries_of activity None timesheets))\<rparr>)"
proof -
  have one: "entries_of key None timesheets \<noteq> [] \<Longrightarrow>
      length (filter (\<lambda>kv. fst kv = None) (group_by key timesheets)) = 1" for key
    using one_item_per_key [OF distinct_keys_group_by, of None key timesheets]
      key_in_group_by [of None key timesheets]
    by simp
  show ?thesis
    unfolding by_project_def by_activity_def
    by (simp add: one map_of_group_by)
qed

theorem missing_ids_one_group_witness:
  "entries_of project None
     [\<lparr>duration = Some 60, billable = Some True, project = None, activity = None\<rparr>,
      \<lparr>duration = Some 20, billable = Some False, project = Some 4, activity = Some 7\<rparr>,
      \<lparr>duration = Some 30, billable = None, project = None, activity = None\<rparr>] \<noteq> [] \<and>
   entries_of activity None
     [\<lparr>duration = Some 60, billable = Some True, project = None, activity = None\<rparr>,
      \<lparr>duration = Some 20, billable = Some False, project = Some 4, activity = Some 7\<rparr>,
      \<lparr>duration = Some 30, billable = None, project = None, activity = None\<rparr>] \<noteq> [] \<and>
   length (filter (\<lambda>kv. fst kv = None) (by_project
     [\<lparr>duration = Some 60, billable = Some True, project = None, activity = None\<rparr>,
      \<lparr>duration = Some 20, billable = Some False, project = Some 4, activity = Some 7\<rparr>,
      \<lparr>duration = Some 30, billable = None, project = None, activity = None\<rparr>])) = 1 \<and>
   map_of (by_project
     [\<lparr>duration = Some 60, billable = Some True, project = None, activity = None\<rparr>,
      \<lparr>duration = Some 20, billable = Some False, project = Some 4, activity = Some 7\<rparr>,
      \<lparr>duration = Some 30, billable = None, project = None, activity = None\<rparr>]) None
     = Some \<lparr>duration_sum = 90, count = 2\<rparr> \<and>
   map_of (by_activity
     [\<lparr>duration = Some 60, billable = Some True, project = None, activity = None\<rparr>,
      \<lparr>duration = Some 20, billable = Some False, project = Some 4, activity = Some 7\<rparr>,
      \<lparr>duration = Some 30, billable = None, project = None, activity = None\<rparr>]) None
     = Some \<lparr>duration_sum = 90, count = 2\<rparr>"
  using missing_ids_one_group
    [of "[\<lparr>duration = Some 60, billable = Some True, project = None, activity = None\<rparr>,
      \<lparr>duration = Some 20, billable = Some False, project = Some 4, activity = Some 7\<rparr>,
      \<lparr>duration = Some 30, billable = None, project = None, activity = None\<rparr>]"]
  by (simp add: entries_of_def get_duration_def)

text \<open>
  C4. For the empty list of entries the report has 0 entries, 0 total, billable and
  non-billable hours, both percentages 0 and no group; the JSON summary likewise. Both are
  computed (\<open>Inr\<close>): no division by zero is met.
\<close>

theorem empty_summary_is_zero:
  "summary_markdown [] =
     Inr \<lparr>md_total_entries = 0, md_total_hours = 0, md_billable_hours = 0,
          md_billable_percent = 0, md_non_billable_hours = 0, md_non_billable_percent = 0,
          md_by_project = [], md_by_activity = []\<rparr> \<and>
   summary_json [] =
     Inr \<lparr>js_total_entries = 0, js_total_hours = 0, js_billable_hours = 0,
          js_non_billable_hours = 0, js_by_project = [], js_by_activity = []\<rparr>"
proof -
  have h: "summary_hours [] = Inr (0, 0, 0)"
    by (simp add: summary_hours_def hours_of_zero fl_zero total_duration_def
        billable_duration_def)
  have p: "percent_of 0 0 = Inr 0"
    by (simp add: percent_of_def)
  have g: "sorted_groups [] = []" "by_project [] = []" "by_activity [] = []"
    by (simp_all add: sorted_groups_def by_project_def by_activity_def group_by_Nil)
  have "summary_markdown [] =
     Inr \<lparr>md_total_entries = 0, md_total_hours = 0, md_billable_hours = 0,
          md_billable_percent = 0, md_non_billable_hours = 0, md_non_billable_percent = 0,
          md_by_project = [], md_by_activity = []\<rparr>"
    by (simp add: summary_markdown_def h p g)
  moreover have "summary_json [] =
     Inr \<lparr>js_total_entries = 0, js_total_hours = 0, js_billable_hours = 0,
          js_non_billable_hours = 0, js_by_project = [], js_by_activity = []\<rparr>"
    by (simp add: summary_json_def h g round2_zero)
  ultimately show ?thesis ..
qed

text \<open>
  C9, as the code has it. The markdown report lists the groups of \<open>by_project\<close> and of
  \<open>by_activity\<close> as \<open>sorted_groups\<close> orders them: by descending seconds, the groups of any
  one number of seconds in the order they have in the mapping, which is the order in which
  their keys are first met in the input. The JSON summary lists the groups in that order of
  first meeting, unsorted.
\<close>

theorem groups_listed_by_seconds:
  "(\<forall>r. summary_markdown timesheets = Inr r \<longrightarrow>
       map fst (md_by_project r) = map fst (sorted_groups (by_project timesheets)) \<and>
       map fst (md_by_activity r) = map fst (sorted_groups (by_activity timesheets))) \<and>
   sorted_wrt (\<lambda>a b. duration_sum (snd b) \<le> duration_sum (snd a))
     (sorted_groups (by_project timesheets)) \<and>
   (\<forall>s. filter (\<lambda>kv. duration_sum (snd kv) = s) (sorted_groups (by_project timesheets)) =
        filter (\<lambda>kv. duration_sum (snd kv) = s) (by_project timesheets)) \<and>
   map fst (by_project timesheets) = first_seen (map project timesheets) \<and>
   sorted_wrt (\<lambda>a b. duration_sum (snd b) \<le> duration_sum (snd a))
     (sorted_groups (by_activity timesheets)) \<and>
   (\<forall>s. filter (\<lambda>kv. duration_sum (snd kv) = s) (sorted_groups (by_activity timesheets)) =
        filter (\<lambda>kv. duration_sum (snd kv) = s) (by_activity timesheets)) \<and>
   map fst (by_activity timesheets) = first_seen (map activity timesheets) \<and>
   (\<forall>j. summary_json timesheets = Inr j \<longrightarrow>
       map fst (js_by_project j) = map str_key (first_seen (map project timesheets)) \<and>
       map fst (js_by_activity j) = map str_key (first_seen (map activity timesheets)))"
proof -
  have desc: "sorted_wrt (\<lambda>a b. duration_sum (snd b) \<le> duration_sum (snd a)) (sorted_groups d)"
    for d
    using sorted_sort_key [of "\<lambda>kv. - duration_sum (snd kv)" d]
    by (simp add: sorted_groups_def sorted_map)
  have stable: "filter (\<lambda>kv. duration_sum (snd kv) = s) (sorted_groups d) =
      filter (\<lambda>kv. duration_sum (snd kv) = s) d" for s d
    using sort_key_stable [of "\<lambda>kv. - duration_sum (snd kv)" "- s" d]
    by (simp add: sorted_groups_def)
  have keys: "map fst (by_project timesheets) = first_seen (map project timesheets)"
    "map fst (by_activity timesheets) = first_seen (map activity timesheets)"
    by (simp_all add: by_project_def by_activity_def keys_group_by)
  from report_lists_sorted_groups [of timesheets] json_lists_groups_unsorted [of timesheets]
    desc stable keys
  show ?thesis
    by simp
qed

theorem groups_listed_by_seconds_witness:
  "summary_markdown two_projects =
     Inr \<lparr>md_total_entries = 2, md_total_hours = 3, md_billable_hours = 3,
          md_billable_percent = 100, md_non_billable_hours = 0, md_non_billable_percent = 0,
          md_by_project = [(Some 2, 2, 1), (Some 1, 1, 1)],
          md_by_activity = [(Some 10, 3, 2)]\<rparr> \<and>
   [Some 2, Some 1] = map fst (sorted_groups (by_project two_projects)) \<and>
   summary_json two_projects =
     Inr \<lparr>js_total_entries = 2, js_total_hours = 3, js_billable_hours = 3,
          js_non_billable_hours = 0,
          js_by_project = [(''1'', 1, 1), (''2'', 2, 1)],
          js_by_activity = [(''10'', 3, 2)]\<rparr> \<and>
   [''1'', ''2''] = map str_key (first_seen (map project two_projects))"
  using groups_listed_by_seconds [of two_projects]
  by (simp add: summary_markdown_two_projects summary_json_two_projects)

text \<open>
  C9 as worded, for every rendering, fails for the JSON summary: project 1 with 3600
  seconds is listed before project 2 with 7200 seconds.
\<close>

theorem json_groups_unsorted_counterexample:
  "summary_json two_projects =
     Inr \<lparr>js_total_entries = 2, js_total_hours = 3, js_billable_hours = 3,
          js_non_billable_hours = 0,
          js_by_project = [(''1'', 1, 1), (''2'', 2, 1)],
          js_by_activity = [(''10'', 3, 2)]\<rparr> \<and>
   by_project two_projects =
     [(Some 1, \<lparr>duration_sum = 3600, count = 1\<rparr>), (Some 2, \<lparr>duration_sum = 7200, count = 1\<rparr>)] \<and>
   duration_sum (snd (by_project two_projects ! 0))
     < duration_sum (snd (by_project two_projects ! 1))"
  by (simp add: summary_json_two_projects groups_two_projects)

section \<open>The client claims\<close>

subsection \<open>Evaluation helpers\<close>

text \<open>
  What \<open>request\<close> returns against a remote system that always gives the same answer, and
  the decimal text of the numbers the examples use.
\<close>

lemma request_fixed_reply:
  "request (fixed_reply r) self method endpoint params json_data w =
     (if \<not> is_success (status_code r) then (Inl (Exception (api_error_message r)), w)
      else if status_code r = 204 \<or> content r = [] then (Inr success_marker, w)
      else (case json r of
              None \<Rightarrow> (Inl (JSONDecodeError ''Expecting value''), w)
            | Some v \<Rightarrow> (Inr v, w)))"
  by (simp add: request_def fixed_reply_def)

lemma str_int_404: "str_int 404 = ''404''"
  by (simp add: str_int_def digits.simps)

lemma str_int_400: "str_int 400 = ''400''"
  by (simp add: str_int_def digits.simps)

lemma str_int_limit: "str_int 25000 = ''25000''"
  by (simp add: str_int_def digits.simps)

lemma str_int_5: "str_int 5 = ''5''"
  by (simp add: str_int_def digits.simps)

lemma request_url_documented_example:
  "request_url (KimaiClient_init \<lparr>base_url = ''http://localhost:8001'', api_token = ''token''\<rparr>)
     ''timesheets/5'' = ''http://localhost:8001/api/timesheets/5''"
  by code_simp

subsection \<open>Empty responses\<close>

text \<open>
  C8. When the remote system answers with a success status and either the status 204 or an
  empty body, \<open>request\<close> returns the marker \<open>{"success": True}\<close>, whatever decoding the
  body would give (also when it would raise).
\<close>

theorem no_content_gives_success_marker:
  assumes "net w \<lparr>req_method = method, req_url = request_url self endpoint,
             req_headers = headers self, req_params = params, req_json = json_data\<rparr>
           = (Response r, w')"
    and "is_success (status_code r)"
    and "status_code r = 204 \<or> content r = []"
  shows "request net self method endpoint params json_data w =
           (Inr (PDict [(''success'', PBool True)]), w')"
  using assms by (simp add: request_def success_marker_def)

theorem no_content_gives_success_marker_witness:
  "request (fixed_reply \<lparr>status_code = 204, content = [], body_text = [], json = None\<rparr>)
     example_client ''DELETE'' ''timesheets/5'' None None () =
     (Inr (PDict [(''success'', PBool True)]), ()) \<and>
   request (fixed_reply \<lparr>status_code = 200, content = [], body_text = [], json = None\<rparr>)
     example_client ''PATCH'' ''timesheets/5'' None None () =
     (Inr (PDict [(''success'', PBool True)]), ())"
  using no_content_gives_success_marker
    [of "fixed_reply \<lparr>status_code = 204, content = [], body_text = [], json = None\<rparr>" "()"
        "''DELETE''" example_client "''timesheets/5''" None None
        "\<lparr>status_code = 204, content = [], body_text = [], json = None\<rparr>" "()"]
    no_content_gives_success_marker
    [of "fixed_reply \<lparr>status_code = 200, content = [], body_text = [], json = None\<rparr>" "()"
        "''PATCH''" example_client "''timesheets/5''" None None
        "\<lparr>status_code = 200, content = [], body_text = [], json = None\<rparr>" "()"]
  by (simp add: fixed_reply_def is_success_def)

subsection \<open>Error messages for a failed status\<close>

lemma error_detail_cases:
  "(\<forall>d m. json r = Some (PDict d) \<longrightarrow> map_of d ''message'' = Some m \<longrightarrow>
       error_detail r = py_str m) \<and>
   (\<forall>d. json r = Some (PDict d) \<longrightarrow> map_of d ''message'' = None \<longrightarrow>
       error_detail r = py_str (PDict d)) \<and>
   ((\<forall>d. json r \<noteq> Some (PDict d)) \<longrightarrow> error_detail r = body_text r)"
  by (auto simp: error_detail_def split: option.splits pyval.splits)

text \<open>
  C5, as the code has it. When the remote system answers with a status outside 2xx, the
  call fails with the message \<open>KIMAI API error (\<close>status\<open>): \<close>detail\<open>. Please check your
  request parameters and try again.\<close> The detail is the \<open>str\<close> of the \<open>message\<close> field when the
  body decodes to an object that has one; the \<open>str\<close> of the decoded object (Python's
  rendering of the dictionary, not the raw text) when it decodes to an object without that
  field; and the raw response text when the body is not JSON or is JSON but not an object.
\<close>

theorem api_error_message_parts:
  assumes "net w \<lparr>req_method = method, req_url = request_url self endpoint,
             req_headers = headers self, req_params = params, req_json = json_data\<rparr>
           = (Response r, w')"
    and "\<not> is_success (status_code r)"
  shows "request net self method endpoint params json_data w =
           (Inl (Exception
              (''KIMAI API error ('' @ str_int (status_code r) @ ''): '' @ error_detail r @
               ''. Please check your request parameters and try again.'')), w') \<and>
         (\<forall>d m. json r = Some (PDict d) \<longrightarrow> map_of d ''message'' = Some m \<longrightarrow>
             error_detail r = py_str m) \<and>
         (\<forall>d. json r = Some (PDict d) \<longrightarrow> map_of d ''message'' = None \<longrightarrow>
             error_detail r = py_str (PDict d)) \<and>
         ((\<forall>d. json r \<noteq> Some (PDict d)) \<longrightarrow> error_detail r = body_text r)"
proof -
  have "request net self method endpoint params json_data w =
           (Inl (Exception
              (''KIMAI API error ('' @ str_int (status_code r) @ ''): '' @ error_detail r @
               ''. Please check your request parameters and try again.'')), w')"
    using assms by (simp add: request_def api_error_message_def)
  with error_detail_cases [of r] show ?thesis
    by blast
qed

theorem api_error_message_parts_witness:
  \<open>request
     (fixed_reply \<lparr>status_code = 404, content = ''{"message":"Not found"}'',
                   body_text = ''{"message":"Not found"}'',
                   json = Some (PDict [(''message'', PStr ''Not found'')])\<rparr>)
     example_client ''GET'' ''timesheets/5'' None None () =
   (Inl (Exception
      ''KIMAI API error (404): Not found. Please check your request parameters and try again.''),
    ())\<close>
  using api_error_message_parts
    [of \<open>fixed_reply \<lparr>status_code = 404, content = ''{"message":"Not found"}'',
                   body_text = ''{"message":"Not found"}'',
                   json = Some (PDict [(''message'', PStr ''Not found'')])\<rparr>\<close> "()"
        "''GET''" example_client "''timesheets/5''" None None
        \<open>\<lparr>status_code = 404, content = ''{"message":"Not found"}'',
                   body_text = ''{"message":"Not found"}'',
                   json = Some (PDict [(''message'', PStr ''Not found'')])\<rparr>\<close> "()"]
  by (simp add: fixed_reply_def is_success_def str_int_404 py_str_def)

text \<open>
  The claim as stated fails for an object without a \<open>message\<close> field: for the body
  \<open>{"error":"bad"}\<close> the message holds Python's rendering \<open>{'error': 'bad'}\<close>, and the raw
  response text does not occur in it.
\<close>

theorem api_error_not_raw_text_counterexample:
  \<open>request
     (fixed_reply \<lparr>status_code = 400, content = ''{"error":"bad"}'',
                   body_text = ''{"error":"bad"}'',
                   json = Some (PDict [(''error'', PStr ''bad'')])\<rparr>)
     example_client ''GET'' ''timesheets/5'' None None () =
   (Inl (Exception
      ''KIMAI API error (400): {'error': 'bad'}. Please check your request parameters and try again.''),
    ()) \<and>
   \<not> sublist ''{"error":"bad"}''
      ''KIMAI API error (400): {'error': 'bad'}. Please check your request parameters and try again.''\<close>
proof -
  have \<open>\<not> sublist ''{"error":"bad"}''
      ''KIMAI API error (400): {'error': 'bad'}. Please check your request parameters and try again.''\<close>
  proof
    assume \<open>sublist ''{"error":"bad"}''
      ''KIMAI API error (400): {'error': 'bad'}. Please check your request parameters and try again.''\<close>
    then have \<open>set ''{"error":"bad"}'' \<subseteq>
      set ''KIMAI API error (400): {'error': 'bad'}. Please check your request parameters and try again.''\<close>
      by (rule set_mono_sublist)
    then show False
      by simp
  qed
  moreover have \<open>request
     (fixed_reply \<lparr>status_code = 400, content = ''{"error":"bad"}'',
                   body_text = ''{"error":"bad"}'',
                   json = Some (PDict [(''error'', PStr ''bad'')])\<rparr>)
     example_client ''GET'' ''timesheets/5'' None None () =
   (Inl (Exception
      ''KIMAI API error (400): {'error': 'bad'}. Please check your request parameters and try again.''),
    ())\<close>
    by (simp add: request_fixed_reply is_success_def api_error_message_def error_detail_def
        str_int_400 py_str_def repr_str_def repr_char_def printable_def Let_def)
  ultimately show ?thesis
    by blast
qed

subsection \<open>The request URL\<close>

text \<open>
  C6. The claim wants the URL to be the configured base URL, its trailing slash removed,
  followed by \<open>/api/\<close> and the path. With a base URL that has a path of its own,
  \<open>urljoin\<close> replaces that path: for \<open>http://example.com/kimai/\<close> and the endpoint
  \<open>timesheets\<close> the code requests \<open>http://example.com/api/timesheets\<close>, where the claim
  gives \<open>http://example.com/kimai/api/timesheets\<close>.
\<close>

theorem base_path_is_dropped:
  "request_url (KimaiClient_init \<lparr>base_url = ''http://example.com/kimai/'', api_token = ''token''\<rparr>)
     ''timesheets'' = ''http://example.com/api/timesheets'' \<and>
   rstrip CHR ''/'' ''http://example.com/kimai/'' @ ''/api/'' @ ''timesheets'' =
     ''http://example.com/kimai/api/timesheets''"
  by code_simp

subsection \<open>The character limit\<close>

lemma truncate_short:
  "length txt \<le> 25000 \<Longrightarrow> truncate_if_needed txt CHARACTER_LIMIT = txt"
  by (simp add: truncate_if_needed_def CHARACTER_LIMIT_def)

lemma truncate_long:
  "25000 < length txt \<Longrightarrow>
   truncate_if_needed txt CHARACTER_LIMIT =
     take 24950 txt @ ''\<newline>\<newline>... [Output truncated at 25000 characters]''"
  by (simp add: truncate_if_needed_def CHARACTER_LIMIT_def slice_to_def str_int_limit)

lemma truncate_length: "length (truncate_if_needed txt CHARACTER_LIMIT) \<le> 25000"
proof (cases "length txt \<le> 25000")
  case True
  then show ?thesis
    by (simp add: truncate_short)
next
  case False
  then have "25000 < length txt"
    by simp
  then show ?thesis
    by (simp add: truncate_long)
qed

text \<open>
  C7, as the code has it. A text that passes through \<open>truncate_if_needed\<close> with the default
  limit comes out with at most 25000 characters: unchanged when it has at most 25000, and
  otherwise its first 24950 characters followed by the marker that names the limit. That is
  the successful output of the list tools (here \<open>list_timesheets\<close> in JSON format); the
  single-record tools, the summary report and the error texts are returned uncut.
\<close>

theorem truncation_caps_list_output:
  "length (truncate_if_needed txt CHARACTER_LIMIT) \<le> 25000 \<and>
   (length txt \<le> 25000 \<longrightarrow> truncate_if_needed txt CHARACTER_LIMIT = txt) \<and>
   (25000 < length txt \<longrightarrow>
      truncate_if_needed txt CHARACTER_LIMIT =
        take 24950 txt @ ''\<newline>\<newline>... [Output truncated at 25000 characters]'') \<and>
   (request net client ''GET'' ''timesheets'' (Some query_params) None w = (Inr result, w') \<longrightarrow>
      list_timesheets_json net client query_params w =
        (truncate_if_needed (py_str result) CHARACTER_LIMIT, w'))"
  by (simp add: truncate_length truncate_short truncate_long list_timesheets_json_def)

theorem truncation_caps_list_output_witness:
  "truncate_if_needed ''[]'' CHARACTER_LIMIT = ''[]'' \<and>
   truncate_if_needed (replicate 25001 CHR ''a'') CHARACTER_LIMIT =
     replicate 24950 CHR ''a'' @ ''\<newline>\<newline>... [Output truncated at 25000 characters]'' \<and>
   list_timesheets_json
     (fixed_reply \<lparr>status_code = 200, content = ''[]'', body_text = ''[]'',
                   json = Some (PList [])\<rparr>)
     example_client [(''page'', PInt 1), (''size'', PInt 50)] () = (''[]'', ())"
proof -
  have r: "request
     (fixed_reply \<lparr>status_code = 200, content = ''[]'', body_text = ''[]'',
                   json = Some (PList [])\<rparr>)
     example_client ''GET'' ''timesheets'' (Some [(''page'', PInt 1), (''size'', PInt 50)]) None ()
     = (Inr (PList []), ())"
    by (simp add: request_fixed_reply is_success_def)
  have p: "py_str (PList []) = ''[]''"
    by (simp add: py_str_def)
  show ?thesis
    using truncation_caps_list_output
      [of "''[]''"
          "fixed_reply \<lparr>status_code = 200, content = ''[]'', body_text = ''[]'',
                   json = Some (PList [])\<rparr>"
          example_client "[(''page'', PInt 1), (''size'', PInt 50)]" "()" "PList []" "()"]
      truncation_caps_list_output
      [of "replicate 25001 CHR ''a''"
          "fixed_reply \<lparr>status_code = 200, content = ''[]'', body_text = ''[]'',
                   json = Some (PList [])\<rparr>"
          example_client "[(''page'', PInt 1), (''size'', PInt 50)]" "()" "PList []" "()"]
    by (simp add: r p)
qed

text \<open>
  The claim as stated fails for \<open>get_timesheet\<close>: a timesheet whose description has 25000
  characters is returned as \<open>str(result)\<close>, longer than the limit.
\<close>

theorem single_record_not_capped_counterexample:
  \<open>25000 < length (fst (get_timesheet_json
     (fixed_reply
        \<lparr>status_code = 200,
         content = ''{"description":"'' @ replicate 25000 CHR ''a'' @ ''"}'',
         body_text = ''{"description":"'' @ replicate 25000 CHR ''a'' @ ''"}'',
         json = Some (PDict [(''description'', PStr (replicate 25000 CHR ''a''))])\<rparr>)
     example_client 5 ()))\<close>
proof -
  have \<open>length (repr_str (replicate 25000 CHR ''a'')) = 25002\<close>
    by (simp add: repr_str_def repr_char_def printable_def Let_def map_replicate_const
        length_concat sum_list_replicate)
  then show ?thesis
    by (simp add: get_timesheet_json_def request_fixed_reply is_success_def py_str_def)
qed

subsection \<open>Stopping a timesheet that has ended\<close>

lemma request_logged:
  "request (logged net) self method endpoint params json_data s =
     (fst (request net self method endpoint params json_data (fst s)),
      (snd (request net self method endpoint params json_data (fst s)),
       snd s @ [\<lparr>req_method = method, req_url = request_url self endpoint,
                 req_headers = headers self, req_params = params, req_json = json_data\<rparr>]))"
  by (simp add: request_def logged_def Let_def split: prod.splits transport.splits option.splits)

text \<open>
  C10. When the timesheet fetched by \<open>stop_timesheet\<close> has an \<open>end\<close> that is not
  \<open>None\<close>, the tool returns the text saying that the timesheet is not running, and the remote
  system is left in the state the GET left it in: the log of requests has grown by that GET
  and by nothing else, so no PATCH was sent.
\<close>

theorem stop_rejects_ended_timesheet:
  assumes "request (logged net) client ''GET'' (''timesheets/'' @ str_int ident) None None s
           = (Inr current, s1)"
    and "py_get current ''end'' = Inr end_value"
    and "end_value \<noteq> PNone"
  shows "stop_timesheet (logged net) client now format_timesheet_markdown ident s =
           (cross_mark @ '' Error: Timesheet #'' @ str_int ident @
            '' is not running (already has an end time).'', s1) \<and>
         snd s1 = snd s @
           [\<lparr>req_method = ''GET'',
             req_url = request_url client (''timesheets/'' @ str_int ident),
             req_headers = headers client, req_params = None, req_json = None\<rparr>]"
proof -
  have "stop_timesheet (logged net) client now format_timesheet_markdown ident s =
           (cross_mark @ '' Error: Timesheet #'' @ str_int ident @
            '' is not running (already has an end time).'', s1)"
    using assms by (simp add: stop_timesheet_def not_running_text_def)
  moreover have "snd s1 = snd s @
           [\<lparr>req_method = ''GET'',
             req_url = request_url client (''timesheets/'' @ str_int ident),
             req_headers = headers client, req_params = None, req_json = None\<rparr>]"
    using assms(1) unfolding request_logged by auto
  ultimately show ?thesis ..
qed

theorem stop_rejects_ended_timesheet_witness:
  "stop_timesheet
     (logged (fixed_reply \<lparr>status_code = 200, content = ended_timesheet_body,
                           body_text = ended_timesheet_body, json = Some ended_timesheet\<rparr>))
     example_client ''2025-11-07T10:00:00Z'' (\<lambda>v. Inr (py_str v)) 5 ((), []) =
   (cross_mark @ '' Error: Timesheet #5 is not running (already has an end time).'',
    ((), [\<lparr>req_method = ''GET'', req_url = ''http://localhost:8001/api/timesheets/5'',
           req_headers = headers example_client, req_params = None, req_json = None\<rparr>]))"
proof -
  have r: "request
     (logged (fixed_reply \<lparr>status_code = 200, content = ended_timesheet_body,
                           body_text = ended_timesheet_body, json = Some ended_timesheet\<rparr>))
     example_client ''GET'' (''timesheets/'' @ str_int 5) None None ((), []) =
     (Inr ended_timesheet,
      ((), [\<lparr>req_method = ''GET'',
             req_url = request_url example_client (''timesheets/'' @ str_int 5),
             req_headers = headers example_client, req_params = None, req_json = None\<rparr>]))"
    by (simp add: request_logged request_fixed_reply is_success_def ended_timesheet_body_def)
  have g: "py_get ended_timesheet ''end'' = Inr (PStr ''2025-11-06T17:00:00+0000'')"
    by (simp add: py_get_def ended_timesheet_def)
  have u: "request_url example_client ''timesheets/5'' = ''http://localhost:8001/api/timesheets/5''"
    unfolding example_client_def by (rule request_url_documented_example)
  show ?thesis
    using stop_rejects_ended_timesheet
      [OF r g, of "''2025-11-07T10:00:00Z''" "\<lambda>v. Inr (py_str v)"]
    by (simp add: str_int_5 u)
qed

end
